theory Spec2Isabelle
  imports Complex_Main
begin

section \<open>The Gurobi wrapper of efficient-mlt: data model\<close>

text \<open>
  The development embeds \<^verbatim>\<open>include/andres/ilp/gurobi-callback.hxx\<close>: the class
  \<^verbatim>\<open>andres::ilp::Gurobi\<close> (a session around one vendor model) and its nested class
  \<^verbatim>\<open>Gurobi::Callback\<close> (the lazy-constraint and heuristic dispatcher).

  The vendor library behind \<^verbatim>\<open>gurobi_c++.h\<close> is not part of the sources. Its objects are
  records that log what the wrapper hands to them (parameter writes, columns, constraints,
  start values, lazy constraints), in call order; what the wrapper reads back from the
  library (attribute and callback queries) is a field holding the library's answer, which
  may be an exception. Member names lose the trailing underscore of the C++ source
  (\<^verbatim>\<open>nVariables_\<close> is \<open>nVariables\<close>), and the callback member \<^verbatim>\<open>where\<close> is \<open>where_cb\<close>.
\<close>

subsection \<open>Outcomes\<close>

text \<open>
  A call either returns (\<open>Inr\<close>) or ends in one of the following ways (\<open>Inl\<close>). The first
  three are C++ exceptions: the vendor's \<^verbatim>\<open>GRBException\<close> with its error code and message,
  \<^verbatim>\<open>std::runtime_error\<close> with its text, and any other exception client code may throw.
  \<open>undefined_behaviour\<close> marks an execution to which C++ gives no meaning: a read outside
  an array or through a null pointer, an iterator advanced past its sequence.
  \<open>unspecified\<close> marks a vendor call with an argument outside the range its interface
  documents, whose outcome the sources do not fix.
\<close>

datatype error =
    GRBException int string
  | runtime_error string
  | other_exception string
  | undefined_behaviour
  | unspecified

fun is_exception :: "error \<Rightarrow> bool" where
  "is_exception (GRBException c m) = True"
| "is_exception (runtime_error m) = True"
| "is_exception (other_exception m) = True"
| "is_exception undefined_behaviour = False"
| "is_exception unspecified = False"

definition throws :: "error + 'a \<Rightarrow> bool" where
  "throws r = (case r of Inl e \<Rightarrow> is_exception e | Inr v \<Rightarrow> False)"

subsection \<open>Doubles\<close>

text \<open>
  A \<^verbatim>\<open>double\<close> is a finite value, one of the two infinities, or a NaN. The comparisons are
  those of C++: a NaN is unequal to everything, itself included. The arithmetic of
  \<^verbatim>\<open>Gurobi::gap\<close> rounds, so its four operations are a parameter (\<open>ieee\<close> below) and not
  defined here.
\<close>

datatype double = NaN | MInf | Fin real | PInf

fun deq :: "double \<Rightarrow> double \<Rightarrow> bool" where
  "deq NaN y = False"
| "deq x NaN = False"
| "deq x y = (x = y)"

definition dne :: "double \<Rightarrow> double \<Rightarrow> bool" where
  "dne x y = (\<not> deq x y)"

fun dlt :: "double \<Rightarrow> double \<Rightarrow> bool" where
  "dlt NaN y = False"
| "dlt x NaN = False"
| "dlt PInf y = False"
| "dlt x MInf = False"
| "dlt MInf y = True"
| "dlt x PInf = True"
| "dlt (Fin a) (Fin b) = (a < b)"

fun dneg :: "double \<Rightarrow> double" where
  "dneg NaN = NaN"
| "dneg MInf = PInf"
| "dneg PInf = MInf"
| "dneg (Fin a) = Fin (- a)"

record ieee =
  fsub :: "double \<Rightarrow> double \<Rightarrow> double"
  fadd :: "double \<Rightarrow> double \<Rightarrow> double"
  fdiv :: "double \<Rightarrow> double \<Rightarrow> double"
  fabs :: "double \<Rightarrow> double"

subsection \<open>The vendor model\<close>

datatype IntParam =
    GRB_IntParam_Disconnected
  | GRB_IntParam_OutputFlag
  | GRB_IntParam_Presolve
  | GRB_IntParam_PreDual
  | GRB_IntParam_PrePasses

datatype vtype = GRB_BINARY | GRB_CONTINUOUS | GRB_INTEGER

text \<open>A variable handle names a column of the vendor model by its position.\<close>

datatype GRBVar = GRBVar nat

datatype sense = GRB_LESS_EQUAL | GRB_GREATER_EQUAL | GRB_EQUAL

record GRBLinExpr =
  const_part :: double
  terms :: "(double \<times> GRBVar) list"

type_synonym constr = "GRBLinExpr \<times> sense \<times> GRBLinExpr"

datatype DoubleAttr = GRB_DoubleAttr_ObjVal | GRB_DoubleAttr_ObjBound

record GRBModel =
  env :: "(IntParam \<times> int) list"
  columns :: "vtype list"
  constrs :: "constr list"
  model_objective :: GRBLinExpr
  starts :: "(GRBVar \<times> double) list"
  attr :: "DoubleAttr \<Rightarrow> error + double"
  attr_X :: "GRBVar \<Rightarrow> error + double"

text \<open>
  \<^verbatim>\<open>getEnv().set(param, value)\<close>, \<^verbatim>\<open>addVars(count, type)\<close> (which returns the handles of
  the columns it has just appended), \<^verbatim>\<open>setObjective\<close> and \<^verbatim>\<open>addConstr\<close>.
\<close>

definition env_set :: "IntParam \<Rightarrow> int \<Rightarrow> GRBModel \<Rightarrow> GRBModel" where
  "env_set p v m = m\<lparr>env := env m @ [(p, v)]\<rparr>"

definition addVars :: "nat \<Rightarrow> vtype \<Rightarrow> GRBModel \<Rightarrow> GRBVar list \<times> GRBModel" where
  "addVars count t m =
     (map GRBVar [length (columns m) ..< length (columns m) + count],
      m\<lparr>columns := columns m @ replicate count t\<rparr>)"

definition setObjective :: "GRBLinExpr \<Rightarrow> GRBModel \<Rightarrow> GRBModel" where
  "setObjective e m = m\<lparr>model_objective := e\<rparr>"

definition addConstr :: "GRBLinExpr \<Rightarrow> sense \<Rightarrow> GRBLinExpr \<Rightarrow> GRBModel \<Rightarrow> GRBModel" where
  "addConstr lhs s rhs m = m\<lparr>constrs := constrs m @ [(lhs, s, rhs)]\<rparr>"

definition linexpr :: "double \<Rightarrow> GRBLinExpr" where
  "linexpr c = \<lparr>const_part = c, terms = []\<rparr>"

definition add_term :: "GRBLinExpr \<Rightarrow> double \<Rightarrow> GRBVar \<Rightarrow> GRBLinExpr" where
  "add_term e c v = e\<lparr>terms := terms e @ [(c, v)]\<rparr>"

subsection \<open>The session\<close>

text \<open>
  \<^verbatim>\<open>gurobiVariables_\<close> is a pointer to an array of handles; it is the list of the handles
  it points to, and the null pointer of a new session is the empty list (a read at any
  index is undefined for both). \<^verbatim>\<open>nVariables_\<close> is a \<^verbatim>\<open>size_t\<close>.
\<close>

record Gurobi =
  gurobiModel :: GRBModel
  gurobiVariables :: "GRBVar list"
  gurobiObjective :: GRBLinExpr
  nVariables :: nat

datatype PreSolver = PRE_SOLVER_AUTO | PRE_SOLVER_PRIMAL | PRE_SOLVER_DUAL | PRE_SOLVER_NONE

definition set_param :: "IntParam \<Rightarrow> int \<Rightarrow> Gurobi \<Rightarrow> Gurobi" where
  "set_param p v g = g\<lparr>gurobiModel := env_set p v (gurobiModel g)\<rparr>"

definition setVerbosity :: "bool \<Rightarrow> Gurobi \<Rightarrow> Gurobi" where
  "setVerbosity verbosity g =
     (if verbosity then set_param GRB_IntParam_OutputFlag 1 g
      else set_param GRB_IntParam_OutputFlag 0 g)"

text \<open>
  The constructor, given the model that \<^verbatim>\<open>new GRBModel(gurobiEnvironment_)\<close> returns.
\<close>

definition Gurobi_new :: "GRBModel \<Rightarrow> Gurobi" where
  "Gurobi_new m =
     set_param GRB_IntParam_Disconnected 2
       (setVerbosity False
          \<lparr>gurobiModel = m, gurobiVariables = [], gurobiObjective = linexpr (Fin 0),
           nVariables = 0\<rparr>)"

text \<open>
  \<^verbatim>\<open>setPreSolver(preSolver, passes = -1)\<close>: the case \<^verbatim>\<open>PRE_SOLVER_NONE\<close> returns from inside
  the switch; the other three fall out of it to the write of \<^verbatim>\<open>PrePasses\<close>.
\<close>

definition setPreSolver :: "PreSolver \<Rightarrow> int \<Rightarrow> Gurobi \<Rightarrow> Gurobi" where
  "setPreSolver preSolver passes g =
     (case preSolver of
        PRE_SOLVER_NONE \<Rightarrow> set_param GRB_IntParam_Presolve 0 g
      | PRE_SOLVER_AUTO \<Rightarrow>
          set_param GRB_IntParam_PrePasses passes (set_param GRB_IntParam_PreDual (- 1) g)
      | PRE_SOLVER_PRIMAL \<Rightarrow>
          set_param GRB_IntParam_PrePasses passes (set_param GRB_IntParam_PreDual 0 g)
      | PRE_SOLVER_DUAL \<Rightarrow>
          set_param GRB_IntParam_PrePasses passes (set_param GRB_IntParam_PreDual 1 g))"

text \<open>The call with the second argument left to its default.\<close>

definition setPreSolver_default :: "PreSolver \<Rightarrow> Gurobi \<Rightarrow> Gurobi" where
  "setPreSolver_default preSolver g = setPreSolver preSolver (- 1) g"

text \<open>
  \<^verbatim>\<open>addVariables(numberOfVariables, coefficients)\<close>. The pointer \<^verbatim>\<open>coefficients\<close> is the
  list of the doubles it points to; \<^verbatim>\<open>addTerms\<close> reads the first \<^verbatim>\<open>numberOfVariables\<close> of
  them, which is undefined when there are fewer. \<^verbatim>\<open>addVars\<close> takes its count as an
  \<^verbatim>\<open>int\<close>: a count that does not fit is left to the vendor library (\<open>unspecified\<close>). The
  assignment to \<^verbatim>\<open>gurobiVariables_\<close> replaces the pointer, and \<^verbatim>\<open>update()\<close> changes nothing
  that the records hold.
\<close>

definition addTerms ::
  "double list \<Rightarrow> GRBVar list \<Rightarrow> nat \<Rightarrow> GRBLinExpr \<Rightarrow> error + GRBLinExpr" where
  "addTerms coeff vars cnt e =
     (if cnt \<le> length coeff \<and> cnt \<le> length vars
      then Inr (e\<lparr>terms := terms e @ zip (take cnt coeff) (take cnt vars)\<rparr>)
      else Inl undefined_behaviour)"

definition addVariables :: "nat \<Rightarrow> double list \<Rightarrow> Gurobi \<Rightarrow> error + Gurobi" where
  "addVariables numberOfVariables coefficients g =
     (if 2 ^ 31 \<le> numberOfVariables then Inl unspecified
      else
        (case addVars numberOfVariables GRB_BINARY (gurobiModel g) of
           (vars, m) \<Rightarrow>
             (case addTerms coefficients vars numberOfVariables (gurobiObjective g) of
                Inl e \<Rightarrow> Inl e
              | Inr ob \<Rightarrow>
                  Inr \<lparr>gurobiModel = setObjective ob m,
                       gurobiVariables = vars,
                       gurobiObjective = ob,
                       nVariables = (nVariables g + numberOfVariables) mod 2 ^ 64\<rparr>)))"


text \<open>
  The accessors. \<^verbatim>\<open>gap()\<close> calls \<^verbatim>\<open>objective()\<close> twice and \<^verbatim>\<open>bound()\<close> once; C++ leaves
  the order of the three calls open, and they only read.
\<close>

definition objective :: "Gurobi \<Rightarrow> error + double" where
  "objective g = attr (gurobiModel g) GRB_DoubleAttr_ObjVal"

definition bound :: "Gurobi \<Rightarrow> error + double" where
  "bound g = attr (gurobiModel g) GRB_DoubleAttr_ObjBound"

definition gap :: "ieee \<Rightarrow> Gurobi \<Rightarrow> error + double" where
  "gap A g =
     (case objective g of
        Inl e \<Rightarrow> Inl e
      | Inr ob \<Rightarrow>
          (case bound g of
             Inl e \<Rightarrow> Inl e
           | Inr bd \<Rightarrow>
               (case objective g of
                  Inl e \<Rightarrow> Inl e
                | Inr ob' \<Rightarrow> Inr (fdiv A (fsub A ob bd) (fadd A (Fin 1) (fabs A ob'))))))"

definition label :: "Gurobi \<Rightarrow> nat \<Rightarrow> error + double" where
  "label g variableIndex =
     (if variableIndex < length (gurobiVariables g)
      then attr_X (gurobiModel g) (gurobiVariables g ! variableIndex)
      else Inl undefined_behaviour)"

text \<open>
  The loop shared by \<^verbatim>\<open>addConstraint\<close> and \<^verbatim>\<open>addLazyConstraint\<close>: the index range
  \<^verbatim>\<open>[viBegin, viEnd)\<close> is a list of indices (each already cast to \<^verbatim>\<open>size_t\<close>), and the
  coefficient iterator is the list of what it has left to yield. Each index is used to read
  \<^verbatim>\<open>gurobiVariables_\<close> as it is.
\<close>

fun build_expression ::
  "GRBVar list \<Rightarrow> nat list \<Rightarrow> double list \<Rightarrow> GRBLinExpr \<Rightarrow> error + GRBLinExpr" where
  "build_expression vars [] cs expression = Inr expression"
| "build_expression vars (i # is) [] expression = Inl undefined_behaviour"
| "build_expression vars (i # is) (c # cs) expression =
     (if i < length vars
      then build_expression vars is cs (add_term expression c (vars ! i))
      else Inl undefined_behaviour)"

definition addConstraint ::
  "nat list \<Rightarrow> double list \<Rightarrow> double \<Rightarrow> double \<Rightarrow> Gurobi \<Rightarrow> error + Gurobi" where
  "addConstraint vi coefficient lowerBound upperBound g =
     (case build_expression (gurobiVariables g) vi coefficient (linexpr (Fin 0)) of
        Inl e \<Rightarrow> Inl e
      | Inr expression \<Rightarrow>
          if deq lowerBound upperBound
          then Inr (g\<lparr>gurobiModel :=
                 addConstr expression GRB_EQUAL (linexpr lowerBound) (gurobiModel g)\<rparr>)
          else
            let m1 = (if dne lowerBound MInf
                      then addConstr expression GRB_GREATER_EQUAL (linexpr lowerBound)
                             (gurobiModel g)
                      else gurobiModel g);
                m2 = (if dne upperBound PInf
                      then addConstr expression GRB_LESS_EQUAL (linexpr upperBound) m1
                      else m1)
            in Inr (g\<lparr>gurobiModel := m2\<rparr>))"

text \<open>
  \<^verbatim>\<open>setStart(valueIterator)\<close>: the iterator is the list of what it has left to yield, and
  \<open>setStart_from j\<close> is the loop from index \<open>j\<close> on.
\<close>

definition set_Start :: "GRBVar \<Rightarrow> double \<Rightarrow> Gurobi \<Rightarrow> Gurobi" where
  "set_Start v x g =
     g\<lparr>gurobiModel := (gurobiModel g)\<lparr>starts := starts (gurobiModel g) @ [(v, x)]\<rparr>\<rparr>"

lemma nVariables_set_Start: "nVariables (set_Start v x g) = nVariables g"
  by (simp add: set_Start_def)

function setStart_from :: "nat \<Rightarrow> double list \<Rightarrow> Gurobi \<Rightarrow> error + Gurobi" where
  "setStart_from j valueIterator g =
     (if j < nVariables g
      then
        (case valueIterator of
           [] \<Rightarrow> Inl undefined_behaviour
         | x # rest \<Rightarrow>
             if j < length (gurobiVariables g)
             then setStart_from (Suc j) rest (set_Start (gurobiVariables g ! j) x g)
             else Inl undefined_behaviour)
      else Inr g)"
  by pat_completeness auto
termination
  by (relation "measure (\<lambda>(j, valueIterator, g). nVariables g - j)")
    (auto simp: nVariables_set_Start)

declare setStart_from.simps [simp del]

definition setStart :: "double list \<Rightarrow> Gurobi \<Rightarrow> error + Gurobi" where
  "setStart valueIterator g = setStart_from 0 valueIterator g"

subsection \<open>The callback\<close>

text \<open>
  \<^verbatim>\<open>GRBCallback\<close> is the vendor's base class: \<^verbatim>\<open>where\<close> and the answers of
  \<^verbatim>\<open>getDoubleInfo\<close> are set by the library before it calls \<^verbatim>\<open>callback()\<close>, and \<open>lazy\<close> logs
  the constraints passed to \<^verbatim>\<open>addLazy\<close>. \<open>Callback\<close> adds the members of
  \<^verbatim>\<open>Gurobi::Callback\<close>; a client's subclass is a further extension of the record, and its
  two virtual methods are functions on that extension.
\<close>

datatype cb_where =
    GRB_CB_POLLING
  | GRB_CB_PRESOLVE
  | GRB_CB_SIMPLEX
  | GRB_CB_MIP
  | GRB_CB_MIPSOL
  | GRB_CB_MIPNODE
  | GRB_CB_MESSAGE
  | GRB_CB_BARRIER

datatype cb_info = GRB_CB_MIP_OBJBST | GRB_CB_MIP_OBJBND

record GRBCallback =
  where_cb :: cb_where
  getDoubleInfo :: "cb_info \<Rightarrow> error + double"
  lazy :: "constr list"

record Callback = GRBCallback +
  objectiveBest :: double
  objectiveBound :: double
  feasibleHeuristic :: bool
  runtime :: double
  gurobi :: Gurobi

record 'a methods =
  separateAndAddLazyConstraints :: "'a Callback_scheme \<Rightarrow> error + 'a Callback_scheme"
  computeFeasibleSolution :: "'a Callback_scheme \<Rightarrow> error + 'a Callback_scheme"

text \<open>The constructor with the member initialisers, over the vendor's base object.\<close>

definition Callback_new :: "GRBCallback \<Rightarrow> Gurobi \<Rightarrow> Callback" where
  "Callback_new base g =
     \<lparr>where_cb = where_cb base, getDoubleInfo = getDoubleInfo base, lazy = lazy base,
      objectiveBest = PInf, objectiveBound = MInf, feasibleHeuristic = False,
      runtime = Fin 0, gurobi = g\<rparr>"

text \<open>\<^verbatim>\<open>std::to_string\<close> on an \<^verbatim>\<open>int\<close>: decimal digits, with a minus sign when negative.\<close>

definition digit_char :: "nat \<Rightarrow> char" where
  "digit_char d = ''0123456789'' ! d"

fun decimal :: "nat \<Rightarrow> string" where
  "decimal n =
     (if n < 10 then [digit_char n] else decimal (n div 10) @ [digit_char (n mod 10)])"

declare decimal.simps [simp del]

definition to_string :: "int \<Rightarrow> string" where
  "to_string i = (if i < 0 then CHR ''-'' # decimal (nat (- i)) else decimal (nat i))"

text \<open>
  The handler of the function-try-block of \<^verbatim>\<open>callback()\<close>: a \<^verbatim>\<open>GRBException\<close> is caught
  and a \<^verbatim>\<open>std::runtime_error\<close> thrown in its place; nothing else is caught.
\<close>

definition rethrow :: "error \<Rightarrow> error" where
  "rethrow e =
     (case e of
        GRBException code message \<Rightarrow>
          runtime_error
            (''Gurobi error '' @ to_string code @ '': '' @ message
               @ '' while executing Gurobi callback'')
      | _ \<Rightarrow> e)"

text \<open>
  The first \<^verbatim>\<open>if\<close> of \<^verbatim>\<open>callback()\<close>. \<open>GRB_INFINITY\<close> is the sentinel that the vendor's
  header defines; the header is not part of the sources, so it is a parameter.
\<close>

definition callback_MIP :: "double \<Rightarrow> 'a Callback_scheme \<Rightarrow> error + 'a Callback_scheme" where
  "callback_MIP GRB_INFINITY this =
     (if where_cb this = GRB_CB_MIP
      then
        (case getDoubleInfo this GRB_CB_MIP_OBJBST of
           Inl e \<Rightarrow> Inl e
         | Inr best \<Rightarrow>
             (case getDoubleInfo this GRB_CB_MIP_OBJBND of
                Inl e \<Rightarrow> Inl e
              | Inr bnd \<Rightarrow>
                  Inr (this\<lparr>objectiveBest := (if deq best GRB_INFINITY then PInf else best),
                            objectiveBound :=
                              (if deq bnd (dneg GRB_INFINITY) then MInf else bnd)\<rparr>)))
      else Inr this)"

text \<open>
  \<^verbatim>\<open>callback()\<close>. Besides the outcome it yields the virtual methods it has called, in
  order. Where it throws, the members it has written before are not part of the outcome.
\<close>

datatype call = call_separateAndAddLazyConstraints | call_computeFeasibleSolution

definition callback ::
  "double \<Rightarrow> 'a methods \<Rightarrow> 'a Callback_scheme \<Rightarrow> call list \<times> (error + 'a Callback_scheme)"
  where
  "callback GRB_INFINITY client this =
     (case callback_MIP GRB_INFINITY this of
        Inl e \<Rightarrow> ([], Inl (rethrow e))
      | Inr this1 \<Rightarrow>
          if where_cb this1 = GRB_CB_MIPSOL
          then
            (case separateAndAddLazyConstraints client this1 of
               Inl e \<Rightarrow> ([call_separateAndAddLazyConstraints], Inl (rethrow e))
             | Inr this2 \<Rightarrow>
                 ([call_separateAndAddLazyConstraints],
                  Inr (this2\<lparr>feasibleHeuristic := True\<rparr>)))
          else if where_cb this1 = GRB_CB_MIPNODE \<and> feasibleHeuristic this1
          then
            (case computeFeasibleSolution client this1 of
               Inl e \<Rightarrow> ([call_computeFeasibleSolution], Inl (rethrow e))
             | Inr this2 \<Rightarrow>
                 ([call_computeFeasibleSolution],
                  Inr (this2\<lparr>feasibleHeuristic := False\<rparr>)))
          else ([], Inr this1))"

text \<open>
  \<^verbatim>\<open>addLazyConstraint\<close>, a protected member that the client's separation code calls:
  \<^verbatim>\<open>expression == lowerBound\<close>, \<^verbatim>\<open>lowerBound <= expression\<close> and
  \<^verbatim>\<open>expression <= upperBound\<close> are temporary constraints with the operands as written.
\<close>

definition addLazy :: "constr \<Rightarrow> 'a Callback_scheme \<Rightarrow> 'a Callback_scheme" where
  "addLazy c this = this\<lparr>lazy := lazy this @ [c]\<rparr>"

definition addLazyConstraint ::
  "nat list \<Rightarrow> double list \<Rightarrow> double \<Rightarrow> double \<Rightarrow> 'a Callback_scheme
     \<Rightarrow> error + 'a Callback_scheme" where
  "addLazyConstraint vi coefficient lowerBound upperBound this =
     (case build_expression (gurobiVariables (gurobi this)) vi coefficient (linexpr (Fin 0)) of
        Inl e \<Rightarrow> Inl e
      | Inr expression \<Rightarrow>
          if deq lowerBound upperBound
          then Inr (addLazy (expression, GRB_EQUAL, linexpr lowerBound) this)
          else
            let this1 = (if dne lowerBound MInf
                         then addLazy (linexpr lowerBound, GRB_LESS_EQUAL, expression) this
                         else this);
                this2 = (if dne upperBound PInf
                         then addLazy (expression, GRB_LESS_EQUAL, linexpr upperBound) this1
                         else this1)
            in Inr this2)"

text \<open>
  A search is the list of the events at which the vendor library calls \<^verbatim>\<open>callback()\<close>;
  before each call the library sets \<^verbatim>\<open>where\<close> and what \<^verbatim>\<open>getDoubleInfo\<close> answers. An
  exception that leaves \<^verbatim>\<open>callback()\<close> ends the search: no later event is dispatched.
\<close>

record event =
  ev_where :: cb_where
  ev_info :: "cb_info \<Rightarrow> error + double"

definition dispatch ::
  "double \<Rightarrow> 'a methods \<Rightarrow> event \<Rightarrow> 'a Callback_scheme
     \<Rightarrow> call list \<times> (error + 'a Callback_scheme)" where
  "dispatch GRB_INFINITY client ev this =
     callback GRB_INFINITY client (this\<lparr>where_cb := ev_where ev, getDoubleInfo := ev_info ev\<rparr>)"

fun dispatch_all ::
  "double \<Rightarrow> 'a methods \<Rightarrow> event list \<Rightarrow> 'a Callback_scheme
     \<Rightarrow> call list \<times> (error + 'a Callback_scheme)" where
  "dispatch_all GRB_INFINITY client [] this = ([], Inr this)"
| "dispatch_all GRB_INFINITY client (ev # evs) this =
     (case dispatch GRB_INFINITY client ev this of
        (cs, Inl e) \<Rightarrow> (cs, Inl e)
      | (cs, Inr this1) \<Rightarrow>
          (case dispatch_all GRB_INFINITY client evs this1 of
             (cs', r) \<Rightarrow> (cs @ cs', r)))"

text \<open>
  The constraints that an addition has handed to the vendor model, and to \<^verbatim>\<open>addLazy\<close>;
  \<open>None\<close> when the addition does not return.
\<close>

definition emitted :: "Gurobi \<Rightarrow> error + Gurobi \<Rightarrow> constr list option" where
  "emitted g r =
     (case r of
        Inl e \<Rightarrow> None
      | Inr g' \<Rightarrow> Some (drop (length (constrs (gurobiModel g))) (constrs (gurobiModel g'))))"

definition emitted_lazy ::
  "'a Callback_scheme \<Rightarrow> error + 'a Callback_scheme \<Rightarrow> constr list option" where
  "emitted_lazy this r =
     (case r of
        Inl e \<Rightarrow> None
      | Inr this' \<Rightarrow> Some (drop (length (lazy this)) (lazy this')))"

text \<open>The parameter writes a call has added to the log of the session's model.\<close>

definition written :: "Gurobi \<Rightarrow> Gurobi \<Rightarrow> (IntParam \<times> int) list" where
  "written g g' = drop (length (env (gurobiModel g))) (env (gurobiModel g'))"


subsection \<open>Sessions on which no \<^verbatim>\<open>optimize()\<close> has run\<close>

text \<open>
  The model-building calls of a client, and a session built by a list of them, stopping at
  the first that does not return. \<open>refuses\<close> says of a vendor model that the library
  refuses every query for the objective value, the bound and a variable's value, as it
  does on a model it has not solved; \<open>answers\<close> are the library's answers to these queries.
\<close>

datatype session_call =
    AddVariables nat "double list"
  | AddConstraint "nat list" "double list" double double
  | SetStart "double list"
  | SetPreSolver PreSolver int
  | SetVerbosity bool

fun perform :: "session_call \<Rightarrow> Gurobi \<Rightarrow> error + Gurobi" where
  "perform (AddVariables n coefficients) g = addVariables n coefficients g"
| "perform (AddConstraint vi coefficient lowerBound upperBound) g =
     addConstraint vi coefficient lowerBound upperBound g"
| "perform (SetStart values) g = setStart values g"
| "perform (SetPreSolver preSolver passes) g = Inr (setPreSolver preSolver passes g)"
| "perform (SetVerbosity verbosity) g = Inr (setVerbosity verbosity g)"

fun perform_all :: "session_call list \<Rightarrow> Gurobi \<Rightarrow> error + Gurobi" where
  "perform_all [] g = Inr g"
| "perform_all (c # cs) g =
     (case perform c g of Inl e \<Rightarrow> Inl e | Inr g' \<Rightarrow> perform_all cs g')"

definition refuses :: "GRBModel \<Rightarrow> bool" where
  "refuses m \<longleftrightarrow> (\<forall>a. throws (attr m a)) \<and> (\<forall>v. throws (attr_X m v))"

definition answers :: "GRBModel \<Rightarrow> (DoubleAttr \<Rightarrow> error + double) \<times> (GRBVar \<Rightarrow> error + double)" where
  "answers m = (attr m, attr_X m)"

subsection \<open>The callback protocol as the specification words it\<close>

text \<open>
  The transitions of the specification, on the flag \<^verbatim>\<open>pendingHeuristicOpportunity\<close> alone:
  an integer candidate (\<^verbatim>\<open>GRB_CB_MIPSOL\<close>) runs the separation routine and raises the flag;
  a relaxation node (\<^verbatim>\<open>GRB_CB_MIPNODE\<close>) with the flag raised runs the heuristic routine
  and lowers it; every other dispatch calls nothing and leaves the flag as it is.
\<close>

definition spec_dispatch :: "cb_where \<Rightarrow> bool \<Rightarrow> call list \<times> bool" where
  "spec_dispatch w pendingHeuristicOpportunity =
     (if w = GRB_CB_MIPSOL then ([call_separateAndAddLazyConstraints], True)
      else if w = GRB_CB_MIPNODE \<and> pendingHeuristicOpportunity
      then ([call_computeFeasibleSolution], False)
      else ([], pendingHeuristicOpportunity))"

fun spec_run :: "cb_where list \<Rightarrow> bool \<Rightarrow> call list \<times> bool" where
  "spec_run [] p = ([], p)"
| "spec_run (w # ws) p =
     (case spec_dispatch w p of
        (cs, p1) \<Rightarrow> (case spec_run ws p1 of (cs', p2) \<Rightarrow> (cs @ cs', p2)))"

subsection \<open>Inputs for the examples\<close>

text \<open>
  An empty vendor model that refuses every attribute query, a callback object over a new
  session on it, a client whose two methods return at once, and an event whose
  \<^verbatim>\<open>getDoubleInfo\<close> answers zero.
\<close>

definition example_model :: GRBModel where
  "example_model =
     \<lparr>env = [], columns = [], constrs = [], model_objective = linexpr (Fin 0), starts = [],
      attr = (\<lambda>a. Inl (GRBException 10005 ''attribute not available'')),
      attr_X = (\<lambda>v. Inl (GRBException 10005 ''attribute not available''))\<rparr>"

definition example_base :: GRBCallback where
  "example_base =
     \<lparr>where_cb = GRB_CB_POLLING, getDoubleInfo = (\<lambda>i. Inr (Fin 0)), lazy = []\<rparr>"

definition example_callback :: Callback where
  "example_callback = Callback_new example_base (Gurobi_new example_model)"

definition idle_client :: "unit methods" where
  "idle_client = \<lparr>separateAndAddLazyConstraints = Inr, computeFeasibleSolution = Inr\<rparr>"

definition event_at :: "cb_where \<Rightarrow> event" where
  "event_at w = \<lparr>ev_where = w, ev_info = (\<lambda>i. Inr (Fin 0))\<rparr>"

lemmas example_defs =
  example_callback_def Callback_new_def example_base_def idle_client_def event_at_def


text \<open>A session with two variables.\<close>

definition example_session :: Gurobi where
  "example_session =
     (case addVariables 2 [Fin 1, Fin 1] (Gurobi_new example_model) of
        Inl e \<Rightarrow> Gurobi_new example_model
      | Inr g \<Rightarrow> g)"

text \<open>
  The four operations without rounding on finite operands, to evaluate the examples; the
  operations of the machine round. A session whose model answers the attribute queries,
  and a session on which \<^verbatim>\<open>addVariables\<close> has been called twice, with one coefficient
  each time.
\<close>

definition lift2 :: "(real \<Rightarrow> real \<Rightarrow> real) \<Rightarrow> double \<Rightarrow> double \<Rightarrow> double" where
  "lift2 f x y = (case (x, y) of (Fin a, Fin b) \<Rightarrow> Fin (f a b) | _ \<Rightarrow> NaN)"

definition exact_arith :: ieee where
  "exact_arith =
     \<lparr>fsub = lift2 (-), fadd = lift2 (+), fdiv = lift2 (/),
      fabs = (\<lambda>x. case x of Fin a \<Rightarrow> Fin \<bar>a\<bar> | MInf \<Rightarrow> PInf | PInf \<Rightarrow> PInf | NaN \<Rightarrow> NaN)\<rparr>"

definition example_solved :: Gurobi where
  "example_solved =
     example_session\<lparr>gurobiModel := (gurobiModel example_session)
       \<lparr>attr := (\<lambda>a. case a of GRB_DoubleAttr_ObjVal \<Rightarrow> Inr (Fin 3)
                         | GRB_DoubleAttr_ObjBound \<Rightarrow> Inr (Fin 1)),
        attr_X := (\<lambda>v. Inr (Fin 1))\<rparr>\<rparr>"

definition example_twice :: Gurobi where
  "example_twice =
     (case addVariables 1 [Fin 1] (Gurobi_new example_model) of
        Inl e \<Rightarrow> Gurobi_new example_model
      | Inr g1 \<Rightarrow>
          (case addVariables 1 [Fin 2] g1 of
             Inl e \<Rightarrow> g1
           | Inr g2 \<Rightarrow> g2))"

section \<open>Presolve configuration\<close>

lemma written_set_param:
  "written g (set_param p v g') = written g g' @ [(p, v)]"
  if "length (env (gurobiModel g)) \<le> length (env (gurobiModel g'))"
  using that by (simp add: written_def set_param_def env_set_def)

lemma written_self: "written g g = []"
  by (simp add: written_def)

lemma length_env_set_param:
  "length (env (gurobiModel (set_param p v g))) = Suc (length (env (gurobiModel g)))"
  by (simp add: set_param_def env_set_def)

lemma set_param_frame:
  "gurobiVariables (set_param p v g) = gurobiVariables g"
  "gurobiObjective (set_param p v g) = gurobiObjective g"
  "nVariables (set_param p v g) = nVariables g"
  by (simp_all add: set_param_def)

text \<open>
  C10. \<^verbatim>\<open>setPreSolver\<close> with \<^verbatim>\<open>PRE_SOLVER_NONE\<close> writes \<^verbatim>\<open>Presolve = 0\<close> and nothing else,
  whatever the pass count, so the pass count has no effect. With each of the other three
  choices it writes \<^verbatim>\<open>PreDual\<close> and then \<^verbatim>\<open>PrePasses\<close>, the latter with the pass count
  given, which is \<open>-1\<close> when the argument is left out.
\<close>

theorem setPreSolver_passes:
  "written g (setPreSolver PRE_SOLVER_NONE passes g) = [(GRB_IntParam_Presolve, 0)]
   \<and> setPreSolver PRE_SOLVER_NONE passes g = setPreSolver PRE_SOLVER_NONE passes' g
   \<and> written g (setPreSolver PRE_SOLVER_AUTO passes g) =
       [(GRB_IntParam_PreDual, - 1), (GRB_IntParam_PrePasses, passes)]
   \<and> written g (setPreSolver PRE_SOLVER_PRIMAL passes g) =
       [(GRB_IntParam_PreDual, 0), (GRB_IntParam_PrePasses, passes)]
   \<and> written g (setPreSolver PRE_SOLVER_DUAL passes g) =
       [(GRB_IntParam_PreDual, 1), (GRB_IntParam_PrePasses, passes)]
   \<and> written g (setPreSolver_default PRE_SOLVER_AUTO g) =
       [(GRB_IntParam_PreDual, - 1), (GRB_IntParam_PrePasses, - 1)]
   \<and> written g (setPreSolver_default PRE_SOLVER_PRIMAL g) =
       [(GRB_IntParam_PreDual, 0), (GRB_IntParam_PrePasses, - 1)]
   \<and> written g (setPreSolver_default PRE_SOLVER_DUAL g) =
       [(GRB_IntParam_PreDual, 1), (GRB_IntParam_PrePasses, - 1)]
   \<and> written g (setPreSolver_default PRE_SOLVER_NONE g) = [(GRB_IntParam_Presolve, 0)]"
  by (simp add: setPreSolver_def setPreSolver_default_def written_set_param
      length_env_set_param written_self)

section \<open>The heuristic flag\<close>

lemma callback_MIP_keeps:
  assumes "callback_MIP G this = Inr this1"
  shows "where_cb this1 = where_cb this" and "feasibleHeuristic this1 = feasibleHeuristic this"
  using assms by (auto simp: callback_MIP_def split: if_splits sum.splits)

lemma callback_MIP_other:
  "where_cb this \<noteq> GRB_CB_MIP \<Longrightarrow> callback_MIP G this = Inr this"
  by (simp add: callback_MIP_def)

lemma callback_MIPSOL:
  assumes "where_cb this = GRB_CB_MIPSOL"
    and "separateAndAddLazyConstraints client this = Inr this'"
  shows "callback G client this =
    ([call_separateAndAddLazyConstraints], Inr (this'\<lparr>feasibleHeuristic := True\<rparr>))"
  using assms by (simp add: callback_def callback_MIP_other)

lemma callback_MIPNODE_pending:
  assumes "where_cb this = GRB_CB_MIPNODE" and "feasibleHeuristic this"
    and "computeFeasibleSolution client this = Inr this'"
  shows "callback G client this =
    ([call_computeFeasibleSolution], Inr (this'\<lparr>feasibleHeuristic := False\<rparr>))"
  using assms by (simp add: callback_def callback_MIP_other)

lemma callback_MIPNODE_idle:
  assumes "where_cb this = GRB_CB_MIPNODE" and "\<not> feasibleHeuristic this"
  shows "callback G client this = ([], Inr this)"
  using assms by (simp add: callback_def callback_MIP_other)

lemma callback_refines:
  assumes "callback G client this = (cs, Inr this')"
  shows "(cs, feasibleHeuristic this') = spec_dispatch (where_cb this) (feasibleHeuristic this)"
proof (cases "callback_MIP G this")
  case (Inl e)
  with assms show ?thesis by (simp add: callback_def)
next
  case (Inr this1)
  note k = callback_MIP_keeps [OF Inr]
  from assms Inr k show ?thesis
    by (auto simp: callback_def spec_dispatch_def split: if_splits sum.splits)
qed

lemma dispatch_all_refines:
  assumes "dispatch_all G client evs this = (cs, Inr this')"
  shows "(cs, feasibleHeuristic this') = spec_run (map ev_where evs) (feasibleHeuristic this)"
  using assms
proof (induction evs arbitrary: this cs)
  case Nil
  then show ?case by simp
next
  case (Cons ev evs)
  obtain c1 r1 where d: "dispatch G client ev this = (c1, r1)" by (cases "dispatch G client ev this")
  show ?case
  proof (cases r1)
    case (Inl e)
    with Cons.prems d show ?thesis by simp
  next
    case (Inr this1)
    obtain c2 r2 where a: "dispatch_all G client evs this1 = (c2, r2)"
      by (cases "dispatch_all G client evs this1")
    from Cons.prems d Inr a have cs: "cs = c1 @ c2" and r2: "r2 = Inr this'" by simp_all
    from d Inr have "callback G client (this\<lparr>where_cb := ev_where ev, getDoubleInfo := ev_info ev\<rparr>) = (c1, Inr this1)"
      by (simp add: dispatch_def)
    from callback_refines [OF this]
    have s1: "spec_dispatch (ev_where ev) (feasibleHeuristic this) = (c1, feasibleHeuristic this1)"
      by simp
    from Cons.IH [of this1 c2] a r2
    have s2: "spec_run (map ev_where evs) (feasibleHeuristic this1) = (c2, feasibleHeuristic this')"
      by simp
    show ?thesis by (simp add: s1 s2 cs)
  qed
qed

lemma spec_run_no_node:
  assumes "GRB_CB_MIPNODE \<notin> set ws" and "spec_run ws True = (cs, p)"
  shows "p \<and> call_computeFeasibleSolution \<notin> set cs"
  using assms
proof (induction ws arbitrary: cs p)
  case Nil
  then show ?case by simp
next
  case (Cons w ws)
  obtain c2 p2 where r: "spec_run ws True = (c2, p2)" by (cases "spec_run ws True")
  from Cons.prems(1) have w: "w \<noteq> GRB_CB_MIPNODE" and ws: "GRB_CB_MIPNODE \<notin> set ws" by auto
  from Cons.IH [OF ws r] have ih: "p2" "call_computeFeasibleSolution \<notin> set c2" by simp_all
  from Cons.prems(2) r w ih show ?case
    by (auto simp: spec_dispatch_def split: if_splits)
qed


text \<open>
  C1, as the code has it. A \<^verbatim>\<open>GRB_CB_MIPSOL\<close> dispatch whose separation routine returns
  has called that routine once and leaves the flag true. A \<^verbatim>\<open>GRB_CB_MIPNODE\<close> dispatch
  that finds the flag true and whose heuristic routine returns has called that routine once
  and leaves the flag false; one that finds the flag false calls nothing and changes
  nothing. Over any sequence of dispatches that all return, the calls made and the final
  flag are those of the specification's transitions. The flag is not lowered between
  candidates: after a \<^verbatim>\<open>GRB_CB_MIPSOL\<close> dispatch it stays true through every later dispatch,
  further candidates included, until a \<^verbatim>\<open>GRB_CB_MIPNODE\<close> dispatch, and the heuristic
  routine is not called before that.
\<close>

theorem callback_flag_protocol:
  "(where_cb this = GRB_CB_MIPSOL \<longrightarrow>
      separateAndAddLazyConstraints client this = Inr this' \<longrightarrow>
      callback G client this =
        ([call_separateAndAddLazyConstraints], Inr (this'\<lparr>feasibleHeuristic := True\<rparr>)))
   \<and> (where_cb this = GRB_CB_MIPNODE \<longrightarrow> feasibleHeuristic this \<longrightarrow>
      computeFeasibleSolution client this = Inr this' \<longrightarrow>
      callback G client this =
        ([call_computeFeasibleSolution], Inr (this'\<lparr>feasibleHeuristic := False\<rparr>)))
   \<and> (where_cb this = GRB_CB_MIPNODE \<longrightarrow> \<not> feasibleHeuristic this \<longrightarrow>
      callback G client this = ([], Inr this))
   \<and> (dispatch_all G client evs this = (cs, Inr final) \<longrightarrow>
      (cs, feasibleHeuristic final) = spec_run (map ev_where evs) (feasibleHeuristic this))
   \<and> (ev_where ev = GRB_CB_MIPSOL \<longrightarrow> GRB_CB_MIPNODE \<notin> set (map ev_where evs) \<longrightarrow>
      dispatch_all G client (ev # evs) this = (cs, Inr final) \<longrightarrow>
      feasibleHeuristic final \<and> call_computeFeasibleSolution \<notin> set cs)"
proof (intro conjI impI)
  assume "where_cb this = GRB_CB_MIPSOL"
    and "separateAndAddLazyConstraints client this = Inr this'"
  then show "callback G client this =
      ([call_separateAndAddLazyConstraints], Inr (this'\<lparr>feasibleHeuristic := True\<rparr>))"
    by (rule callback_MIPSOL)
next
  assume "where_cb this = GRB_CB_MIPNODE" and "feasibleHeuristic this"
    and "computeFeasibleSolution client this = Inr this'"
  then show "callback G client this =
      ([call_computeFeasibleSolution], Inr (this'\<lparr>feasibleHeuristic := False\<rparr>))"
    by (rule callback_MIPNODE_pending)
next
  assume "where_cb this = GRB_CB_MIPNODE" and "\<not> feasibleHeuristic this"
  then show "callback G client this = ([], Inr this)"
    by (rule callback_MIPNODE_idle)
next
  assume "dispatch_all G client evs this = (cs, Inr final)"
  then show "(cs, feasibleHeuristic final) =
      spec_run (map ev_where evs) (feasibleHeuristic this)"
    by (rule dispatch_all_refines)
next
  assume w: "ev_where ev = GRB_CB_MIPSOL"
    and n: "GRB_CB_MIPNODE \<notin> set (map ev_where evs)"
    and d: "dispatch_all G client (ev # evs) this = (cs, Inr final)"
  obtain c2 p2 where r: "spec_run (map ev_where evs) True = (c2, p2)"
    by (cases "spec_run (map ev_where evs) True")
  from spec_run_no_node [OF n r]
  have p2: "p2" and c2: "call_computeFeasibleSolution \<notin> set c2" by simp_all
  from dispatch_all_refines [OF d] w r
  have "cs = call_separateAndAddLazyConstraints # c2" and "feasibleHeuristic final = p2"
    by (simp_all add: spec_dispatch_def)
  with p2 c2 show "feasibleHeuristic final" and "call_computeFeasibleSolution \<notin> set cs"
    by simp_all
qed

text \<open>The theorem at concrete dispatches of the example callback.\<close>

theorem callback_flag_protocol_witness:
  "callback (Fin (10 ^ 100)) idle_client (example_callback\<lparr>where_cb := GRB_CB_MIPSOL\<rparr>) =
     ([call_separateAndAddLazyConstraints],
      Inr (example_callback\<lparr>where_cb := GRB_CB_MIPSOL, feasibleHeuristic := True\<rparr>))
   \<and> callback (Fin (10 ^ 100)) idle_client
       (example_callback\<lparr>where_cb := GRB_CB_MIPNODE, feasibleHeuristic := True\<rparr>) =
     ([call_computeFeasibleSolution],
      Inr (example_callback\<lparr>where_cb := GRB_CB_MIPNODE, feasibleHeuristic := False\<rparr>))
   \<and> callback (Fin (10 ^ 100)) idle_client (example_callback\<lparr>where_cb := GRB_CB_MIPNODE\<rparr>) =
     ([], Inr (example_callback\<lparr>where_cb := GRB_CB_MIPNODE\<rparr>))
   \<and> spec_run [GRB_CB_MIPSOL, GRB_CB_MIP, GRB_CB_MIPNODE, GRB_CB_MIPNODE] False =
     ([call_separateAndAddLazyConstraints, call_computeFeasibleSolution], False)
   \<and> feasibleHeuristic
       (example_callback\<lparr>where_cb := GRB_CB_MIPSOL, getDoubleInfo := (\<lambda>i. Inr (Fin 0)),
          objectiveBest := Fin 0, objectiveBound := Fin 0, feasibleHeuristic := True\<rparr>)"
proof -
  let ?G = "Fin (10 ^ 100)"
  let ?sol = "example_callback\<lparr>where_cb := GRB_CB_MIPSOL\<rparr>"
  let ?pending = "example_callback\<lparr>where_cb := GRB_CB_MIPNODE, feasibleHeuristic := True\<rparr>"
  let ?idle = "example_callback\<lparr>where_cb := GRB_CB_MIPNODE\<rparr>"
  let ?evs = "map event_at [GRB_CB_MIPSOL, GRB_CB_MIP, GRB_CB_MIPNODE, GRB_CB_MIPNODE]"
  let ?final = "example_callback\<lparr>where_cb := GRB_CB_MIPNODE,
    getDoubleInfo := (\<lambda>i. Inr (Fin 0)), objectiveBest := Fin 0, objectiveBound := Fin 0,
    feasibleHeuristic := False\<rparr>"
  let ?evs' = "map event_at [GRB_CB_MIP, GRB_CB_MIPSOL]"
  let ?final' = "example_callback\<lparr>where_cb := GRB_CB_MIPSOL,
    getDoubleInfo := (\<lambda>i. Inr (Fin 0)), objectiveBest := Fin 0, objectiveBound := Fin 0,
    feasibleHeuristic := True\<rparr>"
  have s1: "where_cb ?sol = GRB_CB_MIPSOL"
    and s2: "separateAndAddLazyConstraints idle_client ?sol = Inr ?sol"
    by (simp_all add: idle_client_def)
  have p1: "where_cb ?pending = GRB_CB_MIPNODE" and p2: "feasibleHeuristic ?pending"
    and p3: "computeFeasibleSolution idle_client ?pending = Inr ?pending"
    by (simp_all add: idle_client_def)
  have i1: "where_cb ?idle = GRB_CB_MIPNODE" and i2: "\<not> feasibleHeuristic ?idle"
    by (simp_all add: example_defs)
  have r: "dispatch_all ?G idle_client ?evs example_callback =
      ([call_separateAndAddLazyConstraints, call_computeFeasibleSolution], Inr ?final)"
    by (simp add: dispatch_def callback_def callback_MIP_def example_defs)
  have e1: "ev_where (event_at GRB_CB_MIPSOL) = GRB_CB_MIPSOL"
    and e2: "GRB_CB_MIPNODE \<notin> set (map ev_where ?evs')"
    by (simp_all add: event_at_def)
  have r': "dispatch_all ?G idle_client (event_at GRB_CB_MIPSOL # ?evs') example_callback =
      ([call_separateAndAddLazyConstraints, call_separateAndAddLazyConstraints], Inr ?final')"
    by (simp add: dispatch_def callback_def callback_MIP_def example_defs)
  have f0: "feasibleHeuristic example_callback = False"
    by (simp add: example_defs)
  note a = callback_flag_protocol [where this = ?sol and client = idle_client
      and this' = ?sol and G = ?G]
  note b = callback_flag_protocol [where this = ?pending and client = idle_client
      and this' = ?pending and G = ?G]
  note c = callback_flag_protocol [where this = ?idle and client = idle_client and G = ?G]
  note d = callback_flag_protocol [where this = example_callback and client = idle_client
      and G = ?G and evs = ?evs and final = ?final
      and cs = "[call_separateAndAddLazyConstraints, call_computeFeasibleSolution]"]
  note e = callback_flag_protocol [where this = example_callback and client = idle_client
      and G = ?G and evs = ?evs' and final = ?final' and ev = "event_at GRB_CB_MIPSOL"
      and cs = "[call_separateAndAddLazyConstraints, call_separateAndAddLazyConstraints]"]
  from a s1 s2 have 1: "callback ?G idle_client ?sol =
      ([call_separateAndAddLazyConstraints], Inr (?sol\<lparr>feasibleHeuristic := True\<rparr>))"
    by blast
  from b p1 p2 p3 have 2: "callback ?G idle_client ?pending =
      ([call_computeFeasibleSolution], Inr (?pending\<lparr>feasibleHeuristic := False\<rparr>))"
    by blast
  from c i1 i2 have 3: "callback ?G idle_client ?idle = ([], Inr ?idle)"
    by blast
  from d r have 4: "([call_separateAndAddLazyConstraints, call_computeFeasibleSolution],
      feasibleHeuristic ?final) = spec_run (map ev_where ?evs) (feasibleHeuristic example_callback)"
    by blast
  from e e1 e2 r' have 5: "feasibleHeuristic ?final'"
    by blast
  from 1 2 3 4 5 f0 show ?thesis
    by (simp add: event_at_def)
qed

text \<open>
  Two integer candidates in a row: the flag is true after the first, is still true when
  the second is dispatched, and is true after it; the heuristic routine has not run and
  nothing has lowered the flag in between.
\<close>

theorem flag_across_candidates_counterexample:
  "dispatch (Fin (10 ^ 100)) idle_client (event_at GRB_CB_MIPSOL) example_callback =
     ([call_separateAndAddLazyConstraints],
      Inr (example_callback\<lparr>where_cb := GRB_CB_MIPSOL, getDoubleInfo := (\<lambda>i. Inr (Fin 0)),
             feasibleHeuristic := True\<rparr>))
   \<and> dispatch (Fin (10 ^ 100)) idle_client (event_at GRB_CB_MIPSOL)
       (example_callback\<lparr>where_cb := GRB_CB_MIPSOL, getDoubleInfo := (\<lambda>i. Inr (Fin 0)),
          feasibleHeuristic := True\<rparr>) =
     ([call_separateAndAddLazyConstraints],
      Inr (example_callback\<lparr>where_cb := GRB_CB_MIPSOL, getDoubleInfo := (\<lambda>i. Inr (Fin 0)),
             feasibleHeuristic := True\<rparr>))
   \<and> feasibleHeuristic
       (example_callback\<lparr>where_cb := GRB_CB_MIPSOL, getDoubleInfo := (\<lambda>i. Inr (Fin 0)),
          feasibleHeuristic := True\<rparr>)
   \<and> fst (dispatch_all (Fin (10 ^ 100)) idle_client
         [event_at GRB_CB_MIPSOL, event_at GRB_CB_MIPSOL] example_callback) =
     [call_separateAndAddLazyConstraints, call_separateAndAddLazyConstraints]"
  by (simp add: dispatch_def callback_def callback_MIP_def example_defs)

section \<open>Best objective and best bound\<close>

lemma deq_Fin: "deq x (Fin g) \<longleftrightarrow> x = Fin g"
  by (cases x) simp_all

lemma callback_MIP_values:
  assumes "where_cb this = GRB_CB_MIP"
    and "getDoubleInfo this GRB_CB_MIP_OBJBST = Inr best"
    and "getDoubleInfo this GRB_CB_MIP_OBJBND = Inr bnd"
  shows "callback_MIP G this =
    Inr (this\<lparr>objectiveBest := (if deq best G then PInf else best),
             objectiveBound := (if deq bnd (dneg G) then MInf else bnd)\<rparr>)"
  using assms by (simp add: callback_MIP_def)

text \<open>
  C3, as the code has it. At a \<^verbatim>\<open>GRB_CB_MIP\<close> dispatch the best objective and the best bound
  are taken from the solver, and no client code runs. The best objective becomes positive
  infinity when the solver reports the positive sentinel, and is stored as reported
  otherwise, the negative sentinel included; the best bound becomes negative infinity when
  the solver reports the negative sentinel, and is stored as reported otherwise, the
  positive sentinel included. The sentinel is any finite double \<open>g\<close>.
\<close>

theorem callback_MIP_translation:
  assumes "where_cb this = GRB_CB_MIP"
    and "getDoubleInfo this GRB_CB_MIP_OBJBST = Inr best"
    and "getDoubleInfo this GRB_CB_MIP_OBJBND = Inr bnd"
  shows "callback (Fin g) client this =
    ([], Inr (this\<lparr>objectiveBest := (if best = Fin g then PInf else best),
                 objectiveBound := (if bnd = Fin (- g) then MInf else bnd)\<rparr>))"
  using assms(1) by (simp add: callback_def callback_MIP_values [OF assms] deq_Fin)

text \<open>The theorem where the solver reports the two sentinels that the code translates.\<close>

theorem callback_MIP_translation_witness:
  "callback (Fin (10 ^ 100)) idle_client
     (example_callback\<lparr>where_cb := GRB_CB_MIP,
        getDoubleInfo := (\<lambda>i. case i of GRB_CB_MIP_OBJBST \<Rightarrow> Inr (Fin (10 ^ 100))
                                | GRB_CB_MIP_OBJBND \<Rightarrow> Inr (Fin (- (10 ^ 100))))\<rparr>) =
   ([], Inr (example_callback\<lparr>where_cb := GRB_CB_MIP,
        getDoubleInfo := (\<lambda>i. case i of GRB_CB_MIP_OBJBST \<Rightarrow> Inr (Fin (10 ^ 100))
                                | GRB_CB_MIP_OBJBND \<Rightarrow> Inr (Fin (- (10 ^ 100)))),
        objectiveBest := PInf, objectiveBound := MInf\<rparr>))"
proof -
  let ?cb = "example_callback\<lparr>where_cb := GRB_CB_MIP,
        getDoubleInfo := (\<lambda>i. case i of GRB_CB_MIP_OBJBST \<Rightarrow> Inr (Fin (10 ^ 100))
                                | GRB_CB_MIP_OBJBND \<Rightarrow> Inr (Fin (- (10 ^ 100))))\<rparr>"
  have 1: "where_cb ?cb = GRB_CB_MIP"
    and 2: "getDoubleInfo ?cb GRB_CB_MIP_OBJBST = Inr (Fin (10 ^ 100))"
    and 3: "getDoubleInfo ?cb GRB_CB_MIP_OBJBND = Inr (Fin (- (10 ^ 100)))"
    by simp_all
  from callback_MIP_translation [OF 1 2 3, of "10 ^ 100" idle_client]
  show ?thesis by simp
qed

text \<open>
  The solver reports the negative sentinel as best objective and the positive sentinel as
  best bound: both are stored as finite numbers.
\<close>

theorem sentinel_translation_counterexample:
  "callback (Fin (10 ^ 100)) idle_client
     (example_callback\<lparr>where_cb := GRB_CB_MIP,
        getDoubleInfo := (\<lambda>i. case i of GRB_CB_MIP_OBJBST \<Rightarrow> Inr (Fin (- (10 ^ 100)))
                                | GRB_CB_MIP_OBJBND \<Rightarrow> Inr (Fin (10 ^ 100)))\<rparr>) =
   ([], Inr (example_callback\<lparr>where_cb := GRB_CB_MIP,
        getDoubleInfo := (\<lambda>i. case i of GRB_CB_MIP_OBJBST \<Rightarrow> Inr (Fin (- (10 ^ 100)))
                                | GRB_CB_MIP_OBJBND \<Rightarrow> Inr (Fin (10 ^ 100))),
        objectiveBest := Fin (- (10 ^ 100)), objectiveBound := Fin (10 ^ 100)\<rparr>))"
  by (simp add: callback_def callback_MIP_def example_defs)

section \<open>Errors inside a dispatch\<close>








section \<open>Adding constraints\<close>

lemma replicate_two: "replicate 2 x = [x, x]"
  by (simp add: numeral_2_eq_2)

lemma upt_two: "[0..<2] = [0, Suc 0]"
  by (simp add: numeral_2_eq_2)

lemma example_session_eq:
  "example_session =
     \<lparr>gurobiModel =
        \<lparr>env = [(GRB_IntParam_OutputFlag, 0), (GRB_IntParam_Disconnected, 2)],
         columns = [GRB_BINARY, GRB_BINARY], constrs = [],
         model_objective =
           \<lparr>const_part = Fin 0, terms = [(Fin 1, GRBVar 0), (Fin 1, GRBVar 1)]\<rparr>,
         starts = [],
         attr = (\<lambda>a. Inl (GRBException 10005 ''attribute not available'')),
         attr_X = (\<lambda>v. Inl (GRBException 10005 ''attribute not available''))\<rparr>,
      gurobiVariables = [GRBVar 0, GRBVar 1],
      gurobiObjective = \<lparr>const_part = Fin 0, terms = [(Fin 1, GRBVar 0), (Fin 1, GRBVar 1)]\<rparr>,
      nVariables = 2\<rparr>"
  by (simp add: example_session_def addVariables_def addVars_def addTerms_def
      setObjective_def Gurobi_new_def setVerbosity_def set_param_def env_set_def
      example_model_def linexpr_def replicate_two upt_two)

lemma dlt_not_NaN: "dlt x y \<Longrightarrow> x \<noteq> NaN \<and> y \<noteq> NaN"
  by (cases x; cases y) simp_all

lemma dlt_not_deq: "dlt x y \<Longrightarrow> \<not> deq x y"
  by (cases x; cases y) simp_all

lemma dne_iff: "x \<noteq> NaN \<Longrightarrow> y \<noteq> NaN \<Longrightarrow> dne x y \<longleftrightarrow> x \<noteq> y"
  by (cases x; cases y) (simp_all add: dne_def)

lemma emitted_equal:
  assumes "build_expression (gurobiVariables g) vi coefficient (linexpr (Fin 0)) = Inr expression"
    and "deq lowerBound upperBound"
  shows "emitted g (addConstraint vi coefficient lowerBound upperBound g) =
    Some [(expression, GRB_EQUAL, linexpr lowerBound)]"
  using assms by (simp add: emitted_def addConstraint_def addConstr_def)

lemma emitted_sides:
  assumes "build_expression (gurobiVariables g) vi coefficient (linexpr (Fin 0)) = Inr expression"
    and "dlt lowerBound upperBound"
  shows "emitted g (addConstraint vi coefficient lowerBound upperBound g) =
    Some ((if lowerBound = MInf then []
           else [(expression, GRB_GREATER_EQUAL, linexpr lowerBound)])
          @ (if upperBound = PInf then []
             else [(expression, GRB_LESS_EQUAL, linexpr upperBound)]))"
proof -
  from assms(2) have n: "lowerBound \<noteq> NaN" "upperBound \<noteq> NaN" and d: "\<not> deq lowerBound upperBound"
    by (simp_all add: dlt_not_NaN dlt_not_deq)
  from n have l: "dne lowerBound MInf \<longleftrightarrow> lowerBound \<noteq> MInf"
    and u: "dne upperBound PInf \<longleftrightarrow> upperBound \<noteq> PInf"
    by (simp_all add: dne_iff)
  from assms(1) d show ?thesis
    by (simp add: emitted_def addConstraint_def addConstr_def l u Let_def)
qed

lemma emitted_lazy_equal:
  assumes "build_expression (gurobiVariables (gurobi this)) vi coefficient (linexpr (Fin 0)) =
      Inr expression"
    and "deq lowerBound upperBound"
  shows "emitted_lazy this (addLazyConstraint vi coefficient lowerBound upperBound this) =
    Some [(expression, GRB_EQUAL, linexpr lowerBound)]"
  using assms by (simp add: emitted_lazy_def addLazyConstraint_def addLazy_def)

lemma emitted_lazy_sides:
  assumes "build_expression (gurobiVariables (gurobi this)) vi coefficient (linexpr (Fin 0)) =
      Inr expression"
    and "dlt lowerBound upperBound"
  shows "emitted_lazy this (addLazyConstraint vi coefficient lowerBound upperBound this) =
    Some ((if lowerBound = MInf then []
           else [(linexpr lowerBound, GRB_LESS_EQUAL, expression)])
          @ (if upperBound = PInf then []
             else [(expression, GRB_LESS_EQUAL, linexpr upperBound)]))"
proof -
  from assms(2) have n: "lowerBound \<noteq> NaN" "upperBound \<noteq> NaN" and d: "\<not> deq lowerBound upperBound"
    by (simp_all add: dlt_not_NaN dlt_not_deq)
  from n have l: "dne lowerBound MInf \<longleftrightarrow> lowerBound \<noteq> MInf"
    and u: "dne upperBound PInf \<longleftrightarrow> upperBound \<noteq> PInf"
    by (simp_all add: dne_iff)
  from assms(1) d show ?thesis
    by (simp add: emitted_lazy_def addLazyConstraint_def addLazy_def l u Let_def)
qed

lemma build_expression_in_range:
  assumes "\<forall>i\<in>set vi. i < length vars" and "length vi \<le> length cs"
  shows "build_expression vars vi cs e =
    Inr (e\<lparr>terms := terms e @ map (\<lambda>(i, c). (c, vars ! i)) (zip vi cs)\<rparr>)"
  using assms
proof (induction vi arbitrary: cs e)
  case Nil
  then show ?case by simp
next
  case (Cons i vi)
  then obtain c cs' where cs: "cs = c # cs'" by (cases cs) auto
  with Cons show ?case by (simp add: add_term_def)
qed

lemma build_expression_out_of_range:
  assumes "\<exists>i\<in>set vi. length vars \<le> i"
  shows "build_expression vars vi cs e = Inl undefined_behaviour"
  using assms
proof (induction vars vi cs e rule: build_expression.induct)
  case (1 vars cs expression)
  then show ?case by simp
next
  case (2 vars i "is" expression)
  then show ?case by simp
next
  case (3 vars i "is" c cs expression)
  then show ?case by auto
qed

text \<open>
  C2. Let the indices and coefficients of an addition yield the expression \<open>expression\<close>.
  With equal bounds, \<^verbatim>\<open>addConstraint\<close> and \<^verbatim>\<open>addLazyConstraint\<close> each emit exactly one
  constraint, the equality of the expression with the bound. With the lower bound below the
  upper bound they emit the lower-bound side unless the lower bound is negative infinity,
  and then the upper-bound side unless the upper bound is positive infinity: at most two
  constraints, and none when both bounds are infinite.
\<close>

theorem constraint_emission:
  assumes "build_expression (gurobiVariables g) vi coefficient (linexpr (Fin 0)) = Inr expression"
    and "gurobi this = g"
  shows
    "(deq lowerBound upperBound \<longrightarrow>
        emitted g (addConstraint vi coefficient lowerBound upperBound g) =
          Some [(expression, GRB_EQUAL, linexpr lowerBound)]
        \<and> emitted_lazy this (addLazyConstraint vi coefficient lowerBound upperBound this) =
          Some [(expression, GRB_EQUAL, linexpr lowerBound)])
     \<and> (dlt lowerBound upperBound \<longrightarrow>
        emitted g (addConstraint vi coefficient lowerBound upperBound g) =
          Some ((if lowerBound = MInf then []
                 else [(expression, GRB_GREATER_EQUAL, linexpr lowerBound)])
                @ (if upperBound = PInf then []
                   else [(expression, GRB_LESS_EQUAL, linexpr upperBound)]))
        \<and> emitted_lazy this (addLazyConstraint vi coefficient lowerBound upperBound this) =
          Some ((if lowerBound = MInf then []
                 else [(linexpr lowerBound, GRB_LESS_EQUAL, expression)])
                @ (if upperBound = PInf then []
                   else [(expression, GRB_LESS_EQUAL, linexpr upperBound)])))"
proof -
  from assms have b: "build_expression (gurobiVariables (gurobi this)) vi coefficient
      (linexpr (Fin 0)) = Inr expression"
    by simp
  show ?thesis
    using emitted_equal [OF assms(1)] emitted_sides [OF assms(1)]
      emitted_lazy_equal [OF b] emitted_lazy_sides [OF b]
    by blast
qed

text \<open>The theorem at the session with two variables, for three pairs of bounds.\<close>

theorem constraint_emission_witness:
  "emitted example_session
     (addConstraint [0, 1] [Fin 1, Fin 1] (Fin 1) (Fin 1) example_session) =
     Some [(\<lparr>const_part = Fin 0, terms = [(Fin 1, GRBVar 0), (Fin 1, GRBVar 1)]\<rparr>,
            GRB_EQUAL, linexpr (Fin 1))]
   \<and> emitted_lazy (example_callback\<lparr>gurobi := example_session\<rparr>)
       (addLazyConstraint [0, 1] [Fin 1, Fin 1] (Fin 1) (Fin 1)
          (example_callback\<lparr>gurobi := example_session\<rparr>)) =
     Some [(\<lparr>const_part = Fin 0, terms = [(Fin 1, GRBVar 0), (Fin 1, GRBVar 1)]\<rparr>,
            GRB_EQUAL, linexpr (Fin 1))]
   \<and> emitted example_session
       (addConstraint [0, 1] [Fin 1, Fin 1] MInf (Fin 1) example_session) =
     Some [(\<lparr>const_part = Fin 0, terms = [(Fin 1, GRBVar 0), (Fin 1, GRBVar 1)]\<rparr>,
            GRB_LESS_EQUAL, linexpr (Fin 1))]
   \<and> emitted_lazy (example_callback\<lparr>gurobi := example_session\<rparr>)
       (addLazyConstraint [0, 1] [Fin 1, Fin 1] (Fin 0) (Fin 1)
          (example_callback\<lparr>gurobi := example_session\<rparr>)) =
     Some [(linexpr (Fin 0), GRB_LESS_EQUAL,
            \<lparr>const_part = Fin 0, terms = [(Fin 1, GRBVar 0), (Fin 1, GRBVar 1)]\<rparr>),
           (\<lparr>const_part = Fin 0, terms = [(Fin 1, GRBVar 0), (Fin 1, GRBVar 1)]\<rparr>,
            GRB_LESS_EQUAL, linexpr (Fin 1))]"
proof -
  let ?e = "\<lparr>const_part = Fin 0, terms = [(Fin 1, GRBVar 0), (Fin 1, GRBVar 1)]\<rparr>"
  let ?cb = "example_callback\<lparr>gurobi := example_session\<rparr>"
  have b: "build_expression (gurobiVariables example_session) [0, 1] [Fin 1, Fin 1]
      (linexpr (Fin 0)) = Inr ?e"
    by (simp add: example_session_eq linexpr_def add_term_def)
  have g: "gurobi ?cb = example_session" by simp
  have 1: "deq (Fin 1) (Fin 1)" and 2: "dlt MInf (Fin 1)" and 3: "dlt (Fin 0) (Fin 1)"
    by simp_all
  from constraint_emission [OF b g, of "Fin 1" "Fin 1"] 1
    constraint_emission [OF b g, of MInf "Fin 1"] 2
    constraint_emission [OF b g, of "Fin 0" "Fin 1"] 3
  show ?thesis by simp
qed

text \<open>
  C5, as the code has it. No addition checks an index. When every index is inside the
  handle array, and there is a coefficient for each, the expression pairs each coefficient
  with the handle at its index, and the addition returns. When some index is outside the
  handle array, the addition reads outside the array: its behaviour is undefined, and it
  is not an error raised for the caller.
\<close>

theorem constraint_indices_unchecked:
  assumes "gurobi this = g"
  shows
    "((\<forall>i\<in>set vi. i < length (gurobiVariables g)) \<longrightarrow> length vi \<le> length coefficient \<longrightarrow>
        build_expression (gurobiVariables g) vi coefficient (linexpr (Fin 0)) =
          Inr \<lparr>const_part = Fin 0,
               terms = map (\<lambda>(i, c). (c, gurobiVariables g ! i)) (zip vi coefficient)\<rparr>
        \<and> emitted g (addConstraint vi coefficient lowerBound upperBound g) \<noteq> None
        \<and> emitted_lazy this (addLazyConstraint vi coefficient lowerBound upperBound this)
            \<noteq> None)
     \<and> ((\<exists>i\<in>set vi. length (gurobiVariables g) \<le> i) \<longrightarrow>
        addConstraint vi coefficient lowerBound upperBound g = Inl undefined_behaviour
        \<and> addLazyConstraint vi coefficient lowerBound upperBound this =
            Inl undefined_behaviour)"
proof (intro conjI impI)
  assume r: "\<forall>i\<in>set vi. i < length (gurobiVariables g)"
    and l: "length vi \<le> length coefficient"
  from build_expression_in_range [OF r l, of "linexpr (Fin 0)"]
  show b: "build_expression (gurobiVariables g) vi coefficient (linexpr (Fin 0)) =
      Inr \<lparr>const_part = Fin 0,
           terms = map (\<lambda>(i, c). (c, gurobiVariables g ! i)) (zip vi coefficient)\<rparr>"
    by (simp add: linexpr_def)
  from b show "emitted g (addConstraint vi coefficient lowerBound upperBound g) \<noteq> None"
    by (simp add: emitted_def addConstraint_def Let_def)
  from b assms
  show "emitted_lazy this (addLazyConstraint vi coefficient lowerBound upperBound this) \<noteq> None"
    by (simp add: emitted_lazy_def addLazyConstraint_def Let_def)
next
  assume o: "\<exists>i\<in>set vi. length (gurobiVariables g) \<le> i"
  from build_expression_out_of_range [OF o]
  show "addConstraint vi coefficient lowerBound upperBound g = Inl undefined_behaviour"
    by (simp add: addConstraint_def)
  from build_expression_out_of_range [OF o] assms
  show "addLazyConstraint vi coefficient lowerBound upperBound this = Inl undefined_behaviour"
    by (simp add: addLazyConstraint_def)
qed

text \<open>The theorem at the session with two variables: indices inside, and an index outside.\<close>

theorem constraint_indices_unchecked_witness:
  "build_expression (gurobiVariables example_session) [1, 0] [Fin 2, Fin 3] (linexpr (Fin 0)) =
     Inr \<lparr>const_part = Fin 0, terms = [(Fin 2, GRBVar 1), (Fin 3, GRBVar 0)]\<rparr>
   \<and> emitted example_session
       (addConstraint [1, 0] [Fin 2, Fin 3] (Fin 0) (Fin 1) example_session) \<noteq> None
   \<and> addConstraint [0, 2] [Fin 2, Fin 3] (Fin 0) (Fin 1) example_session =
       Inl undefined_behaviour
   \<and> addLazyConstraint [0, 2] [Fin 2, Fin 3] (Fin 0) (Fin 1)
       (example_callback\<lparr>gurobi := example_session\<rparr>) = Inl undefined_behaviour"
proof -
  let ?cb = "example_callback\<lparr>gurobi := example_session\<rparr>"
  have g: "gurobi ?cb = example_session" by simp
  have v: "gurobiVariables example_session = [GRBVar 0, GRBVar 1]"
    by (simp add: example_session_eq)
  have r: "\<forall>i\<in>set [1, 0]. i < length (gurobiVariables example_session)"
    and l: "length [1, 0 :: nat] \<le> length [Fin 2, Fin 3]"
    and o: "\<exists>i\<in>set [0, 2]. length (gurobiVariables example_session) \<le> i"
    by (simp_all add: v)
  from constraint_indices_unchecked [OF g, of "[1, 0]" "[Fin 2, Fin 3]" "Fin 0" "Fin 1"] r l
  have 1: "build_expression (gurobiVariables example_session) [1, 0] [Fin 2, Fin 3]
        (linexpr (Fin 0)) =
      Inr \<lparr>const_part = Fin 0,
           terms = map (\<lambda>(i, c). (c, gurobiVariables example_session ! i))
             (zip [1, 0] [Fin 2, Fin 3])\<rparr>"
    and 2: "emitted example_session
        (addConstraint [1, 0] [Fin 2, Fin 3] (Fin 0) (Fin 1) example_session) \<noteq> None"
    by blast+
  from constraint_indices_unchecked [OF g, of "[0, 2]" "[Fin 2, Fin 3]" "Fin 0" "Fin 1"] o
  have 3: "addConstraint [0, 2] [Fin 2, Fin 3] (Fin 0) (Fin 1) example_session =
      Inl undefined_behaviour"
    and 4: "addLazyConstraint [0, 2] [Fin 2, Fin 3] (Fin 0) (Fin 1) ?cb =
      Inl undefined_behaviour"
    by blast+
  from 1 2 3 4 show ?thesis by (simp add: v)
qed

text \<open>
  Index 5 on a session with two variables: nothing is raised, the read is out of bounds.
\<close>

theorem index_validation_counterexample:
  "gurobiVariables example_session = [GRBVar 0, GRBVar 1]
   \<and> addConstraint [5] [Fin 1] (Fin 0) (Fin 1) example_session = Inl undefined_behaviour
   \<and> \<not> throws (addConstraint [5] [Fin 1] (Fin 0) (Fin 1) example_session)
   \<and> \<not> throws (addLazyConstraint [5] [Fin 1] (Fin 0) (Fin 1)
          (example_callback\<lparr>gurobi := example_session\<rparr>))"
  by (simp add: example_session_eq addConstraint_def addLazyConstraint_def throws_def)

section \<open>Start values\<close>

lemma setStart_from_enough:
  assumes "nVariables g - j \<le> length vals" and "nVariables g \<le> length (gurobiVariables g)"
  shows "setStart_from j vals g =
    Inr (g\<lparr>gurobiModel := (gurobiModel g)
      \<lparr>starts := starts (gurobiModel g)
         @ take (nVariables g - j) (zip (drop j (gurobiVariables g)) vals)\<rparr>\<rparr>)"
  using assms
proof (induction j vals g rule: setStart_from.induct)
  case (1 j vals g)
  show ?case
  proof (cases "j < nVariables g")
    case False
    then show ?thesis by (simp add: setStart_from.simps)
  next
    case True
    with "1.prems" obtain x rest where v: "vals = x # rest" by (cases vals) auto
    from True "1.prems" have jl: "j < length (gurobiVariables g)" by simp
    let ?g = "set_Start (gurobiVariables g ! j) x g"
    have n: "nVariables ?g = nVariables g" and vs: "gurobiVariables ?g = gurobiVariables g"
      by (simp_all add: set_Start_def)
    from "1.prems" v True have p1: "nVariables ?g - Suc j \<le> length rest" by (simp add: n)
    from "1.prems" have p2: "nVariables ?g \<le> length (gurobiVariables ?g)" by (simp add: n vs)
    note ih = "1.IH" [OF True v jl p1 p2]
    from True have s: "nVariables g - j = Suc (nVariables g - Suc j)" by simp
    from jl have d: "drop j (gurobiVariables g) =
        gurobiVariables g ! j # drop (Suc j) (gurobiVariables g)"
      by (simp add: Cons_nth_drop_Suc)
    have "setStart_from j vals g = setStart_from (Suc j) rest ?g"
      using True v jl by (simp add: setStart_from.simps [of j])
    also note ih
    finally show ?thesis
      by (simp add: n vs v s d set_Start_def)
  qed
qed

lemma setStart_from_short:
  assumes "length vals < nVariables g - j"
  shows "setStart_from j vals g = Inl undefined_behaviour"
  using assms
proof (induction j vals g rule: setStart_from.induct)
  case (1 j vals g)
  from "1.prems" have lt: "j < nVariables g" by simp
  show ?case
  proof (cases vals)
    case Nil
    with lt show ?thesis by (simp add: setStart_from.simps)
  next
    case (Cons x rest)
    show ?thesis
    proof (cases "j < length (gurobiVariables g)")
      case False
      with lt Cons show ?thesis by (simp add: setStart_from.simps)
    next
      case True
      let ?g = "set_Start (gurobiVariables g ! j) x g"
      from "1.prems" Cons have "length rest < nVariables ?g - Suc j"
        by (simp add: set_Start_def)
      from "1.IH" [OF lt Cons True this] lt Cons True show ?thesis
        by (simp add: setStart_from.simps [of j])
    qed
  qed
qed

text \<open>
  C8, as the code has it. \<^verbatim>\<open>setStart\<close> takes a bare iterator and checks no length. It
  gives variable \<open>j\<close> the \<open>j\<close>-th value supplied, in index order, for the first
  \<^verbatim>\<open>nVariables_\<close> values, and ignores any further ones; this holds when the handle array
  has \<^verbatim>\<open>nVariables_\<close> entries. With fewer values than \<^verbatim>\<open>nVariables_\<close> it reads the value
  sequence past its end: its behaviour is undefined, and it is not an error raised for the
  caller.
\<close>

theorem setStart_first_values:
  "(nVariables g \<le> length (gurobiVariables g) \<longrightarrow> nVariables g \<le> length valueIterator \<longrightarrow>
      setStart valueIterator g =
        Inr (g\<lparr>gurobiModel := (gurobiModel g)
          \<lparr>starts := starts (gurobiModel g)
             @ take (nVariables g) (zip (gurobiVariables g) valueIterator)\<rparr>\<rparr>))
   \<and> (length valueIterator < nVariables g \<longrightarrow>
      setStart valueIterator g = Inl undefined_behaviour)"
proof (intro conjI impI)
  assume a: "nVariables g \<le> length (gurobiVariables g)"
    and b: "nVariables g \<le> length valueIterator"
  from b have b': "nVariables g - 0 \<le> length valueIterator" by simp
  from setStart_from_enough [OF b' a]
  show "setStart valueIterator g =
      Inr (g\<lparr>gurobiModel := (gurobiModel g)
        \<lparr>starts := starts (gurobiModel g)
           @ take (nVariables g) (zip (gurobiVariables g) valueIterator)\<rparr>\<rparr>)"
    by (simp add: setStart_def)
next
  assume "length valueIterator < nVariables g"
  then have "length valueIterator < nVariables g - 0" by simp
  from setStart_from_short [OF this]
  show "setStart valueIterator g = Inl undefined_behaviour"
    by (simp add: setStart_def)
qed

lemma example_session_members:
  "gurobiVariables example_session = [GRBVar 0, GRBVar 1]"
  "nVariables example_session = 2"
  "starts (gurobiModel example_session) = []"
  by (simp_all add: example_session_eq)

text \<open>The theorem at the session with two variables: two values, and one value.\<close>

theorem setStart_first_values_witness:
  "setStart [Fin 1, Fin 0] example_session =
     Inr (example_session\<lparr>gurobiModel := (gurobiModel example_session)
       \<lparr>starts := [(GRBVar 0, Fin 1), (GRBVar 1, Fin 0)]\<rparr>\<rparr>)
   \<and> setStart [Fin 1] example_session = Inl undefined_behaviour"
proof -
  have a: "nVariables example_session \<le> length (gurobiVariables example_session)"
    and b: "nVariables example_session \<le> length [Fin 1, Fin 0]"
    and c: "length [Fin 1] < nVariables example_session"
    by (simp_all add: example_session_members)
  from setStart_first_values [of example_session "[Fin 1, Fin 0]"] a b
  have 1: "setStart [Fin 1, Fin 0] example_session =
      Inr (example_session\<lparr>gurobiModel := (gurobiModel example_session)
        \<lparr>starts := starts (gurobiModel example_session)
           @ take (nVariables example_session)
               (zip (gurobiVariables example_session) [Fin 1, Fin 0])\<rparr>\<rparr>)"
    by blast
  from setStart_first_values [of example_session "[Fin 1]"] c
  have 2: "setStart [Fin 1] example_session = Inl undefined_behaviour"
    by blast
  from 1 2 show ?thesis by (simp add: example_session_members)
qed

text \<open>
  Three values for two variables: the call returns, with the first two values set. One
  value for two variables: no exception is raised.
\<close>

theorem setStart_length_counterexample:
  "nVariables example_session = 2
   \<and> setStart [Fin 1, Fin 0, Fin 1] example_session =
     Inr (example_session\<lparr>gurobiModel := (gurobiModel example_session)
       \<lparr>starts := [(GRBVar 0, Fin 1), (GRBVar 1, Fin 0)]\<rparr>\<rparr>)
   \<and> \<not> throws (setStart [Fin 1] example_session)"
  by (simp add: example_session_eq setStart_def setStart_from.simps set_Start_def throws_def)

section \<open>Post-solve accessors\<close>

lemma answers_set_param: "answers (gurobiModel (set_param p v g)) = answers (gurobiModel g)"
  by (simp add: answers_def set_param_def env_set_def)

lemma answers_setVerbosity:
  "answers (gurobiModel (setVerbosity b g)) = answers (gurobiModel g)"
  by (simp add: setVerbosity_def answers_set_param)

lemma answers_setPreSolver:
  "answers (gurobiModel (setPreSolver p n g)) = answers (gurobiModel g)"
  by (cases p) (simp_all add: setPreSolver_def answers_set_param)

lemma answers_Gurobi_new: "answers (gurobiModel (Gurobi_new m)) = answers m"
  by (simp add: Gurobi_new_def answers_set_param answers_setVerbosity)

lemma answers_addVariables:
  "addVariables n cs g = Inr g' \<Longrightarrow> answers (gurobiModel g') = answers (gurobiModel g)"
  by (auto simp: addVariables_def addVars_def setObjective_def answers_def
      split: if_splits sum.splits)

lemma answers_addConstraint:
  "addConstraint vi cs lb ub g = Inr g' \<Longrightarrow> answers (gurobiModel g') = answers (gurobiModel g)"
  by (auto simp: addConstraint_def addConstr_def answers_def Let_def
      split: if_splits sum.splits)

lemma answers_setStart_from:
  "setStart_from j vals g = Inr g' \<Longrightarrow> answers (gurobiModel g') = answers (gurobiModel g)"
proof (induction j vals g rule: setStart_from.induct)
  case (1 j vals g)
  show ?case
  proof (cases "j < nVariables g")
    case False
    with "1.prems" show ?thesis by (simp add: setStart_from.simps)
  next
    case True
    with "1.prems" obtain x rest where v: "vals = x # rest"
      by (cases vals) (simp_all add: setStart_from.simps [of j])
    from "1.prems" True v have jl: "j < length (gurobiVariables g)"
      by (simp add: setStart_from.simps [of j] split: if_splits)
    from "1.prems" True v jl
    have "setStart_from (Suc j) rest (set_Start (gurobiVariables g ! j) x g) = Inr g'"
      by (simp add: setStart_from.simps [of j])
    from "1.IH" [OF True v jl this] show ?thesis
      by (simp add: answers_def set_Start_def)
  qed
qed

lemma answers_perform:
  "perform c g = Inr g' \<Longrightarrow> answers (gurobiModel g') = answers (gurobiModel g)"
  by (cases c)
    (auto simp: answers_addVariables answers_addConstraint answers_setStart_from
      answers_setPreSolver answers_setVerbosity setStart_def)

lemma answers_perform_all:
  "perform_all cs g = Inr g' \<Longrightarrow> answers (gurobiModel g') = answers (gurobiModel g)"
proof (induction cs arbitrary: g)
  case Nil
  then show ?case by simp
next
  case (Cons c cs)
  then obtain g1 where p: "perform c g = Inr g1" and r: "perform_all cs g1 = Inr g'"
    by (auto split: sum.splits)
  from Cons.IH [OF r] answers_perform [OF p] show ?case by simp
qed

lemma throws_gap:
  assumes "throws (objective g)"
  shows "throws (gap A g)"
  using assms by (auto simp: gap_def throws_def split: sum.splits)

text \<open>
  C7, as the code has it. Take a session built from a new one by model-building calls
  only, over a vendor model that refuses the attribute queries until it is solved. Then
  \<^verbatim>\<open>objective()\<close>, \<^verbatim>\<open>bound()\<close> and \<^verbatim>\<open>gap()\<close> fail, and so does \<^verbatim>\<open>label(i)\<close> for every \<open>i\<close>
  inside the handle array: each with the solver's exception for the refused query, the
  wrapper having no check and no error of its own. \<^verbatim>\<open>label(i)\<close> with \<open>i\<close> outside the
  handle array reads outside the array and is not an error raised for the caller.
\<close>

theorem accessors_before_optimize:
  assumes "refuses m" and "perform_all calls (Gurobi_new m) = Inr g"
  shows
    "objective g = attr m GRB_DoubleAttr_ObjVal \<and> throws (objective g)
     \<and> bound g = attr m GRB_DoubleAttr_ObjBound \<and> throws (bound g)
     \<and> throws (gap A g)
     \<and> (variableIndex < length (gurobiVariables g) \<longrightarrow>
        label g variableIndex = attr_X m (gurobiVariables g ! variableIndex)
        \<and> throws (label g variableIndex))
     \<and> (length (gurobiVariables g) \<le> variableIndex \<longrightarrow>
        label g variableIndex = Inl undefined_behaviour)"
proof -
  from answers_perform_all [OF assms(2)] answers_Gurobi_new [of m]
  have a: "attr (gurobiModel g) = attr m" and x: "attr_X (gurobiModel g) = attr_X m"
    by (simp_all add: answers_def)
  from assms(1) have r: "\<And>q. throws (attr m q)" and rx: "\<And>v. throws (attr_X m v)"
    by (simp_all add: refuses_def)
  have o: "objective g = attr m GRB_DoubleAttr_ObjVal"
    and b: "bound g = attr m GRB_DoubleAttr_ObjBound"
    by (simp_all add: objective_def bound_def a)
  from o r have t: "throws (objective g)" by simp
  from b r have "throws (bound g)" by simp
  with o b t throws_gap [OF t, of A] rx show ?thesis
    by (simp add: label_def x)
qed

lemma example_session_built:
  "addVariables 2 [Fin 1, Fin 1] (Gurobi_new example_model) = Inr example_session"
  by (simp add: example_session_def addVariables_def addVars_def addTerms_def)

text \<open>The theorem at a new session and at the session with two variables.\<close>

theorem accessors_before_optimize_witness:
  "objective (Gurobi_new example_model) =
     Inl (GRBException 10005 ''attribute not available'')
   \<and> throws (objective (Gurobi_new example_model))
   \<and> throws (bound example_session)
   \<and> throws (gap exact_arith example_session)
   \<and> label example_session 1 = Inl (GRBException 10005 ''attribute not available'')
   \<and> throws (label example_session 1)
   \<and> label example_session 2 = Inl undefined_behaviour"
proof -
  have r: "refuses example_model"
    by (simp add: refuses_def example_model_def throws_def)
  have n: "perform_all [] (Gurobi_new example_model) = Inr (Gurobi_new example_model)"
    by simp
  have p: "perform_all [AddVariables 2 [Fin 1, Fin 1]] (Gurobi_new example_model) =
      Inr example_session"
    by (simp add: example_session_built)
  have v: "gurobiVariables example_session = [GRBVar 0, GRBVar 1]"
    by (simp add: example_session_eq)
  have i1: "1 < length (gurobiVariables example_session)"
    and i2: "length (gurobiVariables example_session) \<le> 2"
    by (simp_all add: v)
  note a = accessors_before_optimize [OF r n, of exact_arith 0]
  note b = accessors_before_optimize [OF r p, of exact_arith 1]
  note c = accessors_before_optimize [OF r p, of exact_arith 2]
  from a have 1: "objective (Gurobi_new example_model) =
      attr example_model GRB_DoubleAttr_ObjVal"
    and 2: "throws (objective (Gurobi_new example_model))"
    by blast+
  from b have 3: "throws (bound example_session)"
    and 4: "throws (gap exact_arith example_session)"
    by blast+
  from b i1 have 5: "label example_session 1 =
      attr_X example_model (gurobiVariables example_session ! 1)"
    and 6: "throws (label example_session 1)"
    by blast+
  from c i2 have 7: "label example_session 2 = Inl undefined_behaviour"
    by blast
  from 1 2 3 4 5 6 7 show ?thesis
    by (simp add: example_model_def)
qed

text \<open>
  \<^verbatim>\<open>label(0)\<close> on a new session, before any \<^verbatim>\<open>optimize()\<close>: the handle pointer is null,
  the read is undefined, and nothing is raised.
\<close>

theorem label_before_optimize_counterexample:
  "gurobiVariables (Gurobi_new example_model) = []
   \<and> label (Gurobi_new example_model) 0 = Inl undefined_behaviour
   \<and> \<not> throws (label (Gurobi_new example_model) 0)"
  by (simp add: label_def throws_def Gurobi_new_def setVerbosity_def set_param_def)

text \<open>
  C9. When \<^verbatim>\<open>objective()\<close> and \<^verbatim>\<open>bound()\<close> return, as they do after a successful
  \<^verbatim>\<open>optimize()\<close>, \<^verbatim>\<open>gap()\<close> returns the objective minus the bound, divided by one plus
  the absolute value of the objective, in the arithmetic \<open>A\<close> of doubles.
\<close>

theorem gap_formula:
  assumes "objective g = Inr ob" and "bound g = Inr bd"
  shows "gap A g = Inr (fdiv A (fsub A ob bd) (fadd A (Fin 1) (fabs A ob)))"
  using assms by (simp add: gap_def)

text \<open>The theorem at objective 3 and bound 1, without rounding: the gap is one half.\<close>

theorem gap_formula_witness:
  "objective example_solved = Inr (Fin 3) \<and> bound example_solved = Inr (Fin 1)
   \<and> gap exact_arith example_solved = Inr (Fin (1 / 2))"
proof -
  have o: "objective example_solved = Inr (Fin 3)"
    and b: "bound example_solved = Inr (Fin 1)"
    by (simp_all add: objective_def bound_def example_solved_def)
  from gap_formula [OF o b, of exact_arith] o b
  show ?thesis by (simp add: exact_arith_def lift2_def)
qed

section \<open>Adding variables twice\<close>

text \<open>
  C6 at two calls of \<^verbatim>\<open>addVariables\<close> with one coefficient each. The vendor model has
  both columns, \<^verbatim>\<open>nVariables_\<close> is 2 and the objective has both terms; but the handle
  array holds the handle of the second column only. Index 0 now names the second variable,
  and index 1, which \<^verbatim>\<open>setStart\<close> reads since \<^verbatim>\<open>nVariables_\<close> is 2, is outside the array.
\<close>

theorem addVariables_twice:
  "columns (gurobiModel example_twice) = [GRB_BINARY, GRB_BINARY]
   \<and> nVariables example_twice = 2
   \<and> terms (model_objective (gurobiModel example_twice)) =
       [(Fin 1, GRBVar 0), (Fin 2, GRBVar 1)]
   \<and> gurobiVariables example_twice = [GRBVar 1]
   \<and> build_expression (gurobiVariables example_twice) [0] [Fin 1] (linexpr (Fin 0)) =
       Inr \<lparr>const_part = Fin 0, terms = [(Fin 1, GRBVar 1)]\<rparr>
   \<and> addConstraint [1] [Fin 1] (Fin 0) (Fin 1) example_twice = Inl undefined_behaviour
   \<and> label example_twice 1 = Inl undefined_behaviour
   \<and> setStart [Fin 0, Fin 1] example_twice = Inl undefined_behaviour"
proof -
  have e: "example_twice =
     \<lparr>gurobiModel =
        \<lparr>env = [(GRB_IntParam_OutputFlag, 0), (GRB_IntParam_Disconnected, 2)],
         columns = [GRB_BINARY, GRB_BINARY], constrs = [],
         model_objective =
           \<lparr>const_part = Fin 0, terms = [(Fin 1, GRBVar 0), (Fin 2, GRBVar 1)]\<rparr>,
         starts = [],
         attr = (\<lambda>a. Inl (GRBException 10005 ''attribute not available'')),
         attr_X = (\<lambda>v. Inl (GRBException 10005 ''attribute not available''))\<rparr>,
      gurobiVariables = [GRBVar 1],
      gurobiObjective = \<lparr>const_part = Fin 0, terms = [(Fin 1, GRBVar 0), (Fin 2, GRBVar 1)]\<rparr>,
      nVariables = 2\<rparr>"
    by (simp add: example_twice_def addVariables_def addVars_def addTerms_def
        setObjective_def Gurobi_new_def setVerbosity_def set_param_def env_set_def
        example_model_def linexpr_def)
  show ?thesis
    by (simp add: e linexpr_def add_term_def addConstraint_def label_def setStart_def
        setStart_from.simps set_Start_def)
qed

end
